theory Spec2Isabelle
  imports Complex_Main "HOL-Library.Word"
begin

unbundle bit_operations_syntax

section \<open>The toolkit as seen from the two components\<close>

text \<open>
  \<^verbatim>\<open>source/environmentrenderingpass.ts\<close> and \<^verbatim>\<open>demos/eye-tracking/eyetracking.ts\<close>
  assemble objects of the surrounding toolkit (programs, shaders, textures, geometries,
  a framebuffer, the WebGL context, the console). The toolkit's classes are not part of
  the two files, so a toolkit object is a value that names the object (the arguments of
  its \<^verbatim>\<open>new\<close>), and a call into the toolkit is an entry of type \<open>Call\<close>. A method of
  the two files is the list of calls it makes, in order, together with the exception that
  ended it, if one did.
\<close>

datatype Context = Context string

datatype GLenum =
    RGB | RGB8 | UNSIGNED_BYTE
  | VERTEX_SHADER | FRAGMENT_SHADER
  | TEXTURE0 | TEXTURE1
  | CULL_FACE | DEPTH_TEST | BACK

type_synonym mat4 = "real list"

record Camera =
  viewProjection :: mat4
  viewProjectionInverse :: mat4

text \<open>
  The union \<^verbatim>\<open>Texture2D | TextureCube\<close>: the constructor is what \<^verbatim>\<open>instanceof\<close>
  tests at run time.
\<close>

datatype Texture = Texture2D Context string | TextureCube Context string

datatype Program = Program Context string

datatype Shader = Shader Context GLenum string

datatype Geometry = NdcFillingTriangle Context string | CuboidGeometry Context string

datatype Framebuffer = DefaultFramebuffer Context string

text \<open>\<^verbatim>\<open>program.uniform(name)\<close>: the location of a named uniform of a program.\<close>

datatype UniformLocation = uniform Program string

datatype Call =
    GeometryInitialize Geometry
  | GeometryBind Geometry
  | GeometryDraw Geometry
  | GeometryUnbind Geometry
  | GeometryUninitialize Geometry
  | Texture2DInitialize Texture int int GLenum GLenum GLenum
  | TextureCubeInitialize Texture int GLenum GLenum GLenum
  | TextureBind Texture GLenum
  | TextureUninitialize Texture
  | ShaderInitialize Shader string "bool option" bool
  | ShaderReplace Shader string string
  | ShaderCompile Shader bool
  | ProgramInitialize Program "Shader list" bool bool
  | ProgramAttribute Program string nat
  | ProgramLink Program bool
  | ProgramBind Program
  | ProgramUnbind Program
  | ProgramUninitialize Program
  | Uniform1i UniformLocation int
  | Uniform1iv UniformLocation "int list"
  | UniformMatrix4fv UniformLocation bool mat4
  | FramebufferBind Framebuffer
  | FramebufferClear Framebuffer "32 word" bool bool
  | FramebufferUninitialize Framebuffer
  | Viewport int int int int
  | Enable GLenum
  | Disable GLenum
  | CullFace GLenum
  | ConsoleLog string

text \<open>
  In \<open>ShaderInitialize\<close>, \<open>ShaderCompile\<close>, \<open>ProgramInitialize\<close> and \<open>ProgramLink\<close> the
  last boolean is what the toolkit returned to the caller: the success of the step. The
  second argument of \<^verbatim>\<open>Shader.initialize\<close> is optional: \<open>None\<close> when it is left out.
\<close>

datatype Error = EvalError string | TypeError

type_synonym Run = "Call list \<times> Error option"

definition call :: "Call \<Rightarrow> Run" where
  "call c = ([c], None)"

text \<open>
  Modelled from the spec: \<^verbatim>\<open>assert\<close> of \<^verbatim>\<open>./auxiliaries\<close>, which is not among the
  sources. The specification calls a failed assertion "a fatal precondition violation,
  not a recoverable error": the statement holds and nothing happens, or the call is
  abandoned with an error carrying the message.
\<close>

definition assert :: "bool \<Rightarrow> string \<Rightarrow> Run" where
  "assert statement message = ([], if statement then None else Some (EvalError message))"

text \<open>One statement after the other; an exception ends the sequence.\<close>

fun andThen :: "Run \<Rightarrow> Run \<Rightarrow> Run" where
  "andThen (cs, Some e) r = (cs, Some e)"
| "andThen (cs, None) (ds, r) = (cs @ ds, r)"

fun statements :: "Run list \<Rightarrow> Run" where
  "statements [] = ([], None)"
| "statements (s # ss) = andThen s (statements ss)"

text \<open>
  A method call or property read on a field that may be \<^verbatim>\<open>undefined\<close>: JavaScript
  throws a TypeError there (the \<^verbatim>\<open>!\<close> of TypeScript has no effect at run time).
\<close>

definition bind_texture :: "Texture option \<Rightarrow> GLenum \<Rightarrow> Run" where
  "bind_texture texture unit =
     (case texture of None \<Rightarrow> ([], Some TypeError) | Some t \<Rightarrow> call (TextureBind t unit))"

fun instanceof_Texture2D :: "Texture option \<Rightarrow> bool" where
  "instanceof_Texture2D (Some (Texture2D c n)) = True"
| "instanceof_Texture2D _ = False"

fun instanceof_TextureCube :: "Texture option \<Rightarrow> bool" where
  "instanceof_TextureCube (Some (TextureCube c n)) = True"
| "instanceof_TextureCube _ = False"

section \<open>EnvironmentRenderingPass\<close>

datatype EnvironmentTextureType = CubeMap | EquirectangularMap | SphereMap | PolarMap

text \<open>
  The fields of the class. A field the constructor leaves unassigned is \<^verbatim>\<open>undefined\<close>
  until a setter assigns it: \<open>None\<close>. That holds for \<^verbatim>\<open>_environmenTextureType\<close> too,
  whatever its declared type.
\<close>

record EnvironmentRenderingPass =
  pass_context :: Context
  environmentTexture :: "Texture option"
  environmentTexture2 :: "Texture option"
  environmenTextureType :: "EnvironmentTextureType option"
  camera :: "Camera option"
  cubeMapProgram :: Program
  equiMapProgram :: Program
  sphereMapProgram :: Program
  polarMapProgram :: Program
  ndcTriangle :: Geometry
  emptyTexture :: Texture
  emptyCubemap :: Texture

definition constructor :: "Context \<Rightarrow> EnvironmentRenderingPass" where
  "constructor context =
     \<lparr> pass_context = context,
       environmentTexture = None,
       environmentTexture2 = None,
       environmenTextureType = None,
       camera = None,
       cubeMapProgram = Program context ''CubemapEnvironmentProgram'',
       equiMapProgram = Program context ''EquimapEnvironmentProgram'',
       sphereMapProgram = Program context ''SpheremapEnvironmentProgram'',
       polarMapProgram = Program context ''PolarmapEnvironmentProgram'',
       ndcTriangle = NdcFillingTriangle context ''EnvironmentNdcTriangle'',
       emptyTexture = Texture2D context ''EmptyTexture'',
       emptyCubemap = TextureCube context ''EmptyCube'' \<rparr>"

subsection \<open>frame\<close>

text \<open>
  The \<^verbatim>\<open>if\<close> chain of \<^verbatim>\<open>frame()\<close>: the statements of the branch taken, and the value
  the local variable \<^verbatim>\<open>program\<close> has after it (it starts as the cube-map program).
\<close>

definition frame_dispatch :: "EnvironmentRenderingPass \<Rightarrow> Run \<times> Program" where
  "frame_dispatch this =
     (if environmenTextureType this = Some EquirectangularMap then
        (statements
           [assert (instanceof_Texture2D (environmentTexture this))
              ''Input texture expected to be Texture2D for equirectangular mapping.'',
            bind_texture (environmentTexture this) TEXTURE0],
         equiMapProgram this)
      else if environmenTextureType this = Some SphereMap then
        (statements
           [assert (instanceof_Texture2D (environmentTexture this))
              ''Input texture expected to be Texture2D for sphere mapping.'',
            bind_texture (environmentTexture this) TEXTURE0],
         sphereMapProgram this)
      else if environmenTextureType this = Some CubeMap then
        (statements
           [assert (instanceof_TextureCube (environmentTexture this))
              ''Input texture expected to be a TextureCube for cube mapping.'',
            bind_texture (environmentTexture this) TEXTURE0],
         cubeMapProgram this)
      else if environmenTextureType this = Some PolarMap then
        (statements
           [assert (environmentTexture2 this \<noteq> None)
              ''Two input textures expected for polar mapping.'',
            assert (instanceof_Texture2D (environmentTexture this))
              ''Input texture expected to be a Texture2D for polar mapping.'',
            assert (instanceof_Texture2D (environmentTexture2 this))
              ''Input texture expected to be a Texture2D for polar mapping.'',
            bind_texture (environmentTexture this) TEXTURE0,
            bind_texture (environmentTexture2 this) TEXTURE1],
         polarMapProgram this)
      else (statements [], cubeMapProgram this))"

definition uniform_viewProjectionInverse :: "Program \<Rightarrow> Camera option \<Rightarrow> Run" where
  "uniform_viewProjectionInverse program cam =
     (case cam of
        None \<Rightarrow> ([], Some TypeError)
      | Some c \<Rightarrow>
          call (UniformMatrix4fv (uniform program ''u_viewProjectionInverse'') False
                  (viewProjectionInverse c)))"

definition frame :: "EnvironmentRenderingPass \<Rightarrow> Run" where
  "frame this =
     statements
       [assert (camera this \<noteq> None) ''Camera is undefined in environment rendering pass.'',
        assert (environmentTexture this \<noteq> None)
          ''Environment texture is undefined in environment rendering pass.'',
        fst (frame_dispatch this),
        call (ProgramBind (snd (frame_dispatch this))),
        uniform_viewProjectionInverse (snd (frame_dispatch this)) (camera this),
        call (GeometryBind (ndcTriangle this)),
        call (GeometryDraw (ndcTriangle this)),
        call (ProgramUnbind (snd (frame_dispatch this)))]"

subsection \<open>The setters\<close>

definition set_environmentTextureType ::
    "EnvironmentTextureType \<Rightarrow> EnvironmentRenderingPass \<Rightarrow> EnvironmentRenderingPass" where
  "set_environmentTextureType type this = this\<lparr>environmenTextureType := Some type\<rparr>"

definition set_environmentTexture ::
    "Texture \<Rightarrow> EnvironmentRenderingPass \<Rightarrow> EnvironmentRenderingPass" where
  "set_environmentTexture texture this = this\<lparr>environmentTexture := Some texture\<rparr>"

definition set_environmentTexture2 ::
    "Texture \<Rightarrow> EnvironmentRenderingPass \<Rightarrow> EnvironmentRenderingPass" where
  "set_environmentTexture2 texture this = this\<lparr>environmentTexture2 := Some texture\<rparr>"

definition set_camera :: "Camera \<Rightarrow> EnvironmentRenderingPass \<Rightarrow> EnvironmentRenderingPass" where
  "set_camera cam this = this\<lparr>camera := Some cam\<rparr>"

subsection \<open>update\<close>

definition update :: "EnvironmentRenderingPass \<Rightarrow> Run" where
  "update this = statements []"

subsection \<open>initialize and uninitialize\<close>

text \<open>
  What the toolkit answers during \<^verbatim>\<open>initialize()\<close>: the pair returned by
  \<^verbatim>\<open>Wizard.queryInternalTextureFormat(context, gl.RGB, Wizard.Precision.byte)\<close>, the
  triangle's \<^verbatim>\<open>vertexLocation\<close>, the text \<^verbatim>\<open>require\<close> loads, and for each step that
  reports success or failure (initialising a shader, compiling the fragment shader after
  \<^verbatim>\<open>PROJECTION_TYPE\<close> was replaced by the given text, initialising a program, linking
  it) whether it succeeds.
\<close>

record Toolkit =
  queryInternalTextureFormat :: "GLenum \<times> GLenum"
  vertexLocation :: nat
  require :: "string \<Rightarrow> string"
  shader_initializes :: "Shader \<Rightarrow> bool"
  shader_compiles :: "Shader \<Rightarrow> string \<Rightarrow> bool"
  program_initializes :: "Program \<Rightarrow> bool"
  program_links :: "Program \<Rightarrow> bool"

text \<open>
  The body of \<^verbatim>\<open>initialize()\<close> as it runs when no call into the toolkit raises: the
  calls it makes, in the order of the source, and the value returned. The results of
  \<^verbatim>\<open>vert.initialize\<close>, \<^verbatim>\<open>frag.compile\<close>, \<^verbatim>\<open>program.initialize\<close> and
  \<^verbatim>\<open>program.link\<close> are not assigned or tested by the body. The decorators
  \<^verbatim>\<open>@Initializable.initialize()\<close> and \<^verbatim>\<open>@Initializable.uninitialize()\<close> belong to
  \<^verbatim>\<open>./initializable\<close> and are not modelled.
\<close>

definition initialize :: "Toolkit \<Rightarrow> EnvironmentRenderingPass \<Rightarrow> Run \<times> bool option" where
  "initialize toolkit this =
     (let internalFormatAndType = queryInternalTextureFormat toolkit;
          vert = Shader (pass_context this) VERTEX_SHADER ''glyph.vert'';
          frag = Shader (pass_context this) FRAGMENT_SHADER ''glyph.frag'';
          body = statements
            [call (GeometryInitialize (ndcTriangle this)),
             call (Texture2DInitialize (emptyTexture this) 1 1
                     (fst internalFormatAndType) RGB (snd internalFormatAndType)),
             call (TextureCubeInitialize (emptyCubemap this) 1
                     (fst internalFormatAndType) RGB (snd internalFormatAndType)),
             call (ShaderInitialize vert (require toolkit ''./shaders/env-projections.vert'')
                     None (shader_initializes toolkit vert)),
             call (ShaderInitialize frag (require toolkit ''./shaders/env-projections.frag'')
                     (Some False) (shader_initializes toolkit frag)),

             call (ShaderReplace frag ''PROJECTION_TYPE'' ''CUBE_MAP''),
             call (ShaderCompile frag (shader_compiles toolkit frag ''CUBE_MAP'')),
             call (ProgramInitialize (cubeMapProgram this) [vert, frag] False
                     (program_initializes toolkit (cubeMapProgram this))),
             call (ProgramAttribute (cubeMapProgram this) ''a_vertex'' (vertexLocation toolkit)),
             call (ProgramLink (cubeMapProgram this) (program_links toolkit (cubeMapProgram this))),
             call (ProgramBind (cubeMapProgram this)),
             call (Uniform1i (uniform (cubeMapProgram this) ''u_cubemap'') 0),
             call (ProgramUnbind (cubeMapProgram this)),

             call (ShaderReplace frag ''PROJECTION_TYPE'' ''EQUI_MAP''),
             call (ShaderCompile frag (shader_compiles toolkit frag ''EQUI_MAP'')),
             call (ProgramInitialize (equiMapProgram this) [vert, frag] False
                     (program_initializes toolkit (equiMapProgram this))),
             call (ProgramAttribute (equiMapProgram this) ''a_vertex'' (vertexLocation toolkit)),
             call (ProgramLink (equiMapProgram this) (program_links toolkit (equiMapProgram this))),
             call (ProgramBind (equiMapProgram this)),
             call (Uniform1i (uniform (equiMapProgram this) ''u_equirectmap'') 0),
             call (ProgramUnbind (equiMapProgram this)),

             call (ShaderReplace frag ''PROJECTION_TYPE'' ''SPHERE_MAP''),
             call (ShaderCompile frag (shader_compiles toolkit frag ''SPHERE_MAP'')),
             call (ProgramInitialize (sphereMapProgram this) [vert, frag] False
                     (program_initializes toolkit (sphereMapProgram this))),
             call (ProgramAttribute (sphereMapProgram this) ''a_vertex'' (vertexLocation toolkit)),
             call (ProgramLink (sphereMapProgram this)
                     (program_links toolkit (sphereMapProgram this))),
             call (ProgramBind (sphereMapProgram this)),
             call (Uniform1i (uniform (sphereMapProgram this) ''u_spheremap'') 0),
             call (ProgramUnbind (sphereMapProgram this)),

             call (ShaderReplace frag ''PROJECTION_TYPE'' ''POLAR_MAP''),
             call (ShaderCompile frag (shader_compiles toolkit frag ''POLAR_MAP'')),
             call (ProgramInitialize (polarMapProgram this) [vert, frag] False
                     (program_initializes toolkit (polarMapProgram this))),
             call (ProgramAttribute (polarMapProgram this) ''a_vertex'' (vertexLocation toolkit)),
             call (ProgramLink (polarMapProgram this) (program_links toolkit (polarMapProgram this))),
             call (ProgramBind (polarMapProgram this)),
             call (Uniform1iv (uniform (polarMapProgram this) ''u_polarmap'') [0, 1]),
             call (ProgramUnbind (polarMapProgram this))]
      in (body, if snd body = None then Some True else None))"

definition uninitialize :: "EnvironmentRenderingPass \<Rightarrow> Run" where
  "uninitialize this =
     statements
       [call (ProgramUninitialize (cubeMapProgram this)),
        call (ProgramUninitialize (equiMapProgram this)),
        call (ProgramUninitialize (sphereMapProgram this)),
        call (ProgramUninitialize (polarMapProgram this))]"

text \<open>
  A call into the toolkit can end in an exception of the toolkit's own (a failed
  assertion of a class that was not initialised, for one). \<open>raises done c\<close> is the
  exception the toolkit raises when \<open>c\<close> is called after the calls \<open>done\<close>, if it raises
  one; an exception raised while the arguments of a call are evaluated counts as raised
  by the call. The calls are made in order until one raises.
\<close>

fun perform :: "(Call list \<Rightarrow> Call \<Rightarrow> Error option) \<Rightarrow> Call list \<Rightarrow> Call list \<Rightarrow> Run" where
  "perform raises done [] = ([], None)"
| "perform raises done (c # cs) =
     (case raises done c of
        Some e \<Rightarrow> ([c], Some e)
      | None \<Rightarrow> andThen (call c) (perform raises (done @ [c]) cs))"

text \<open>
  \<^verbatim>\<open>initialize()\<close> against a toolkit whose calls can raise. The body is a straight line
  of calls with no \<^verbatim>\<open>try\<close> and no branch: it is abandoned at the first call that
  raises, without a returned value, and reaches \<^verbatim>\<open>return true\<close> otherwise.
\<close>

definition initialize_raising ::
    "(Call list \<Rightarrow> Call \<Rightarrow> Error option) \<Rightarrow> Toolkit \<Rightarrow> EnvironmentRenderingPass
       \<Rightarrow> Run \<times> bool option" where
  "initialize_raising raises toolkit this =
     (let body = perform raises [] (fst (fst (initialize toolkit this)))
      in (body, if snd body = None then Some True else None))"

subsection \<open>The public interface\<close>

text \<open>
  The methods a host can invoke on a pass, each with the pass it leaves and what it ran.
\<close>

datatype Method =
    Initialize
  | Uninitialize
  | Update
  | Frame
  | Set_environmentTextureType EnvironmentTextureType
  | Set_environmentTexture Texture
  | Set_environmentTexture2 Texture
  | Set_camera Camera

fun invoke ::
    "Toolkit \<Rightarrow> Method \<Rightarrow> EnvironmentRenderingPass \<Rightarrow> EnvironmentRenderingPass \<times> Run" where
  "invoke toolkit Initialize this = (this, fst (initialize toolkit this))"
| "invoke toolkit Uninitialize this = (this, uninitialize this)"
| "invoke toolkit Update this = (this, update this)"
| "invoke toolkit Frame this = (this, frame this)"
| "invoke toolkit (Set_environmentTextureType type) this =
     (set_environmentTextureType type this, statements [])"
| "invoke toolkit (Set_environmentTexture texture) this =
     (set_environmentTexture texture this, statements [])"
| "invoke toolkit (Set_environmentTexture2 texture) this =
     (set_environmentTexture2 texture this, statements [])"
| "invoke toolkit (Set_camera cam) this = (set_camera cam this, statements [])"

text \<open>
  The calls a sequence of invocations makes. An exception ends the invocation that
  raised it; the host can go on invoking methods of the same pass.
\<close>

fun calls_of :: "Toolkit \<Rightarrow> Method list \<Rightarrow> EnvironmentRenderingPass \<Rightarrow> Call list" where
  "calls_of toolkit [] this = []"
| "calls_of toolkit (m # ms) this =
     fst (snd (invoke toolkit m this)) @ calls_of toolkit ms (fst (invoke toolkit m this))"

subsection \<open>Observations on a list of calls\<close>

text \<open>A step whose result tells the caller that it failed.\<close>

fun failed_step :: "Call \<Rightarrow> bool" where
  "failed_step (ShaderInitialize s src c ok) = (\<not> ok)"
| "failed_step (ShaderCompile s ok) = (\<not> ok)"
| "failed_step (ProgramInitialize p ss l ok) = (\<not> ok)"
| "failed_step (ProgramLink p ok) = (\<not> ok)"
| "failed_step _ = False"


fun releases_geometry_or_texture :: "Call \<Rightarrow> bool" where
  "releases_geometry_or_texture (GeometryUninitialize g) = True"
| "releases_geometry_or_texture (TextureUninitialize t) = True"
| "releases_geometry_or_texture _ = False"

section \<open>EyeTrackingRenderer\<close>

text \<open>
  The data stream is the toolkit's; the renderer reads three of its properties. The
  data object is represented by what its \<^verbatim>\<open>toString()\<close> returns, and a status other
  than the two the renderer names is \<open>OtherStatusMessage\<close>.
\<close>

datatype EyeTrackingData = EyeTrackingData (toString: string)

datatype EyeTrackingStatusMessage =
    NewServerMessage
  | BinaryMessageTooSmall
  | OtherStatusMessage nat

record EyeTrackerDataStream =
  eyeTrackingData :: EyeTrackingData
  statusMessage :: EyeTrackingStatusMessage
  serverMessage :: string

datatype Navigation = Navigation string

text \<open>
  The fields of the renderer after \<^verbatim>\<open>onInitialize\<close> has assigned them, with
  \<^verbatim>\<open>_context\<close> and \<^verbatim>\<open>_frameSize\<close> of the base class.
\<close>

record EyeTrackingRenderer =
  r_context :: Context
  r_frameSize :: "int \<times> int"
  r_camera :: Camera
  r_navigation :: Navigation
  r_cuboid :: Geometry
  r_program :: Program
  r_uViewProjection :: UniformLocation
  r_defaultFBO :: Framebuffer
  r_eyeTrackerDataStream :: EyeTrackerDataStream

text \<open>The two bits of WebGL's clear mask the renderer uses, with WebGL's values.\<close>

definition COLOR_BUFFER_BIT :: "32 word" where
  "COLOR_BUFFER_BIT = 0x4000"

definition DEPTH_BUFFER_BIT :: "32 word" where
  "DEPTH_BUFFER_BIT = 0x100"

text \<open>
  \<^verbatim>\<open>onFrame()\<close>. \<^verbatim>\<open>gl.GL_FALSE\<close> is not a property of a WebGL context: it reads as
  \<^verbatim>\<open>undefined\<close>, which the \<^verbatim>\<open>transpose\<close> parameter takes as false.
\<close>

definition onFrame :: "EyeTrackingRenderer \<Rightarrow> Run" where
  "onFrame this =
     statements
       [call (FramebufferBind (r_defaultFBO this)),
        call (FramebufferClear (r_defaultFBO this) (COLOR_BUFFER_BIT OR DEPTH_BUFFER_BIT)
                True False),

        call (Viewport 0 0 (fst (r_frameSize this)) (snd (r_frameSize this))),

        call (Enable CULL_FACE),
        call (CullFace BACK),
        call (Enable DEPTH_TEST),

        call (ProgramBind (r_program this)),
        call (UniformMatrix4fv (r_uViewProjection this) False (viewProjection (r_camera this))),

        call (GeometryBind (r_cuboid this)),
        call (GeometryDraw (r_cuboid this)),
        call (GeometryUnbind (r_cuboid this)),

        call (ProgramUnbind (r_program this)),

        call (CullFace BACK),
        call (Disable CULL_FACE)]"

text \<open>
  The two arrow functions \<^verbatim>\<open>onInitialize\<close> hands to \<^verbatim>\<open>onDataUpdate\<close> and
  \<^verbatim>\<open>onStatusUpdate\<close>: the renderer an invocation leaves, and what it ran.
\<close>

definition onDataUpdate_callback :: "EyeTrackingRenderer \<Rightarrow> EyeTrackingRenderer \<times> Run" where
  "onDataUpdate_callback this =
     (this, call (ConsoleLog (toString (eyeTrackingData (r_eyeTrackerDataStream this)))))"

definition onStatusUpdate_callback :: "EyeTrackingRenderer \<Rightarrow> EyeTrackingRenderer \<times> Run" where
  "onStatusUpdate_callback this =
     (this,
      case statusMessage (r_eyeTrackerDataStream this) of
        NewServerMessage \<Rightarrow> call (ConsoleLog (serverMessage (r_eyeTrackerDataStream this)))
      | BinaryMessageTooSmall \<Rightarrow>
          call (ConsoleLog ''Received stream from server with not enough bytes.'')
      | OtherStatusMessage n \<Rightarrow>
          call (ConsoleLog ''Eye-Tracking data stream in invalid state.''))"

text \<open>
  The capabilities of the WebGL context (\<^verbatim>\<open>gl.isEnabled\<close>) after a list of calls:
  \<^verbatim>\<open>gl.enable\<close> switches one on, \<^verbatim>\<open>gl.disable\<close> switches it off.
\<close>

fun isEnabled_after :: "(GLenum \<Rightarrow> bool) \<Rightarrow> Call list \<Rightarrow> GLenum \<Rightarrow> bool" where
  "isEnabled_after s [] = s"
| "isEnabled_after s (Enable cap # cs) = isEnabled_after (s(cap := True)) cs"
| "isEnabled_after s (Disable cap # cs) = isEnabled_after (s(cap := False)) cs"
| "isEnabled_after s (c # cs) = isEnabled_after s cs"

section \<open>Inputs used in the examples\<close>

definition mat4_identity :: mat4 where
  "mat4_identity = [1, 0, 0, 0,  0, 1, 0, 0,  0, 0, 1, 0,  0, 0, 0, 1]"

definition example_camera :: Camera where
  "example_camera = \<lparr> viewProjection = mat4_identity, viewProjectionInverse = mat4_identity \<rparr>"

section \<open>Properties of frame\<close>

lemmas run_simps = frame_def frame_dispatch_def assert_def call_def bind_texture_def
  uniform_viewProjectionInverse_def

text \<open>
  C1. With a camera set and a primary texture of the kind the projection type asks for
  (and, for PolarMap, a 2D secondary texture), \<^verbatim>\<open>frame()\<close> makes exactly these calls and
  ends without an exception: the primary texture is bound to unit 0; for PolarMap, and
  only there, the secondary texture is bound to unit 1; the program of the type (cube,
  equirectangular, sphere, polar) is bound; the inverse view-projection matrix of the
  camera is uploaded to that program's \<^verbatim>\<open>u_viewProjectionInverse\<close>; the full-screen
  triangle is bound and drawn once; the program is unbound. \<open>this\<lparr>\<dots>\<rparr>\<close> is any pass whose
  camera, textures and type are the ones written; in the first three cases the secondary
  texture is whatever \<open>this\<close> holds.
\<close>

theorem frame_selects_documented_program:
  "frame (this\<lparr>camera := Some cam, environmentTexture := Some (TextureCube c n),
            environmenTextureType := Some CubeMap\<rparr>)
     = ([TextureBind (TextureCube c n) TEXTURE0,
         ProgramBind (cubeMapProgram this),
         UniformMatrix4fv (uniform (cubeMapProgram this) ''u_viewProjectionInverse'') False
           (viewProjectionInverse cam),
         GeometryBind (ndcTriangle this),
         GeometryDraw (ndcTriangle this),
         ProgramUnbind (cubeMapProgram this)], None)
   \<and> frame (this\<lparr>camera := Some cam, environmentTexture := Some (Texture2D c n),
            environmenTextureType := Some EquirectangularMap\<rparr>)
     = ([TextureBind (Texture2D c n) TEXTURE0,
         ProgramBind (equiMapProgram this),
         UniformMatrix4fv (uniform (equiMapProgram this) ''u_viewProjectionInverse'') False
           (viewProjectionInverse cam),
         GeometryBind (ndcTriangle this),
         GeometryDraw (ndcTriangle this),
         ProgramUnbind (equiMapProgram this)], None)
   \<and> frame (this\<lparr>camera := Some cam, environmentTexture := Some (Texture2D c n),
            environmenTextureType := Some SphereMap\<rparr>)
     = ([TextureBind (Texture2D c n) TEXTURE0,
         ProgramBind (sphereMapProgram this),
         UniformMatrix4fv (uniform (sphereMapProgram this) ''u_viewProjectionInverse'') False
           (viewProjectionInverse cam),
         GeometryBind (ndcTriangle this),
         GeometryDraw (ndcTriangle this),
         ProgramUnbind (sphereMapProgram this)], None)
   \<and> frame (this\<lparr>camera := Some cam, environmentTexture := Some (Texture2D c n),
            environmentTexture2 := Some (Texture2D c2 n2),
            environmenTextureType := Some PolarMap\<rparr>)
     = ([TextureBind (Texture2D c n) TEXTURE0,
         TextureBind (Texture2D c2 n2) TEXTURE1,
         ProgramBind (polarMapProgram this),
         UniformMatrix4fv (uniform (polarMapProgram this) ''u_viewProjectionInverse'') False
           (viewProjectionInverse cam),
         GeometryBind (ndcTriangle this),
         GeometryDraw (ndcTriangle this),
         ProgramUnbind (polarMapProgram this)], None)"
  by (simp add: run_simps)

text \<open>
  C4. Without a camera, or without a primary environment texture, \<^verbatim>\<open>frame()\<close> ends in
  a failed assertion and has made no call at all: it neither returns silently nor draws.
\<close>

theorem frame_without_camera_or_texture_is_fatal:
  assumes "camera this = None \<or> environmentTexture this = None"
  shows "\<exists>message. frame this = ([], Some (EvalError message))"
  using assms by (auto simp add: run_simps)

theorem frame_without_camera_or_texture_is_fatal_witness:
  "(camera (set_environmentTexture (Texture2D (Context ''webgl'') ''sky'')
              (constructor (Context ''webgl''))) = None
      \<or> environmentTexture (set_environmentTexture (Texture2D (Context ''webgl'') ''sky'')
              (constructor (Context ''webgl''))) = None)
   \<and> (\<exists>message.
         frame (set_environmentTexture (Texture2D (Context ''webgl'') ''sky'')
                  (constructor (Context ''webgl'')))
           = ([], Some (EvalError message)))"
  using frame_without_camera_or_texture_is_fatal
          [of "set_environmentTexture (Texture2D (Context ''webgl'') ''sky'')
                 (constructor (Context ''webgl''))"]
  by (simp add: constructor_def set_environmentTexture_def)

text \<open>
  C5. When the kind of a texture does not match the projection type (a 2D texture for
  CubeMap; a cube texture for EquirectangularMap, SphereMap or PolarMap; for PolarMap a
  secondary texture that is missing or is a cube texture), \<^verbatim>\<open>frame()\<close> ends in a failed
  assertion and has made no call before it: nothing is bound and nothing is drawn.
\<close>

theorem frame_kind_mismatch_is_fatal:
  assumes "(environmenTextureType this = Some CubeMap
              \<and> (\<exists>c n. environmentTexture this = Some (Texture2D c n)))
         \<or> (environmenTextureType this \<in> {Some EquirectangularMap, Some SphereMap, Some PolarMap}
              \<and> (\<exists>c n. environmentTexture this = Some (TextureCube c n)))
         \<or> (environmenTextureType this = Some PolarMap
              \<and> (environmentTexture2 this = None
                   \<or> (\<exists>c n. environmentTexture2 this = Some (TextureCube c n))))"
  shows "\<exists>message. frame this = ([], Some (EvalError message))"
  using assms
  by (cases "camera this"; cases "environmentTexture this") (auto simp add: run_simps)

theorem frame_kind_mismatch_is_fatal_witness:
  "environmenTextureType
     (set_environmentTextureType CubeMap
        (set_environmentTexture (Texture2D (Context ''webgl'') ''sky'')
           (set_camera example_camera (constructor (Context ''webgl''))))) = Some CubeMap
   \<and> environmentTexture
       (set_environmentTextureType CubeMap
          (set_environmentTexture (Texture2D (Context ''webgl'') ''sky'')
             (set_camera example_camera (constructor (Context ''webgl'')))))
       = Some (Texture2D (Context ''webgl'') ''sky'')
   \<and> frame
       (set_environmentTextureType CubeMap
          (set_environmentTexture (Texture2D (Context ''webgl'') ''sky'')
             (set_camera example_camera (constructor (Context ''webgl'')))))
       = ([], Some (EvalError ''Input texture expected to be a TextureCube for cube mapping.''))"
proof -
  let ?pass =
    "set_environmentTextureType CubeMap
       (set_environmentTexture (Texture2D (Context ''webgl'') ''sky'')
          (set_camera example_camera (constructor (Context ''webgl''))))"
  have type: "environmenTextureType ?pass = Some CubeMap"
    by (simp add: set_environmentTextureType_def)
  have texture: "environmentTexture ?pass = Some (Texture2D (Context ''webgl'') ''sky'')"
    by (simp add: set_environmentTextureType_def set_environmentTexture_def)
  have cam: "camera ?pass = Some example_camera"
    by (simp add: set_environmentTextureType_def set_environmentTexture_def set_camera_def)
  from type texture obtain message where fatal: "frame ?pass = ([], Some (EvalError message))"
    using frame_kind_mismatch_is_fatal [of ?pass] by blast
  have "snd (frame ?pass)
          = Some (EvalError ''Input texture expected to be a TextureCube for cube mapping.'')"
    by (simp add: run_simps type texture cam)
  with fatal type texture show ?thesis by simp
qed

text \<open>
  C9. The constructor leaves \<^verbatim>\<open>_environmenTextureType\<close> unassigned. With the type
  undefined, a camera and any primary texture, \<^verbatim>\<open>frame()\<close> fails no assertion: no branch
  of the dispatch is taken, no texture is bound, the cube-map program is used and the
  full-screen triangle is drawn.
\<close>

theorem frame_with_unset_type_draws_with_cube_program:
  "environmenTextureType (constructor context) = None
   \<and> environmenTextureType (set_environmentTexture texture (set_camera cam (constructor context)))
       = None
   \<and> frame (this\<lparr>camera := Some cam, environmentTexture := Some texture,
                 environmenTextureType := None\<rparr>)
     = ([ProgramBind (cubeMapProgram this),
         UniformMatrix4fv (uniform (cubeMapProgram this) ''u_viewProjectionInverse'') False
           (viewProjectionInverse cam),
         GeometryBind (ndcTriangle this),
         GeometryDraw (ndcTriangle this),
         ProgramUnbind (cubeMapProgram this)], None)"
  by (simp add: run_simps constructor_def set_environmentTexture_def set_camera_def)

section \<open>Properties of the setters\<close>

text \<open>
  C6. Each of the four setters, invoked with any value, leaves the pass with that value
  in its field and every other field as it was, makes no call and raises nothing.
\<close>

theorem setters_only_assign:
  "invoke toolkit (Set_environmentTextureType type) this =
     (this\<lparr>environmenTextureType := Some type\<rparr>, [], None)
   \<and> invoke toolkit (Set_environmentTexture texture) this =
     (this\<lparr>environmentTexture := Some texture\<rparr>, [], None)
   \<and> invoke toolkit (Set_environmentTexture2 texture2) this =
     (this\<lparr>environmentTexture2 := Some texture2\<rparr>, [], None)
   \<and> invoke toolkit (Set_camera cam) this = (this\<lparr>camera := Some cam\<rparr>, [], None)"
  by (simp add: set_environmentTextureType_def set_environmentTexture_def
        set_environmentTexture2_def set_camera_def)

section \<open>Properties of initialize and uninitialize\<close>

lemma perform_silent: "perform (\<lambda>done c. None) done cs = (cs, None)"
  by (induction cs arbitrary: "done") (simp_all add: call_def)

lemma initialize_run: "snd (fst (initialize toolkit this)) = None"
  by (simp add: initialize_def call_def Let_def)

text \<open>
  C2, as the code has it. \<^verbatim>\<open>initialize()\<close> never returns false, whatever the toolkit
  reports for the shader and program steps and whichever of its calls raise: it returns
  true exactly when no call raises, and it does return true when none does. The boolean
  does not tell a failed compilation or link from a successful one.
\<close>

theorem initialize_never_returns_false:
  "snd (initialize_raising raises toolkit this) \<noteq> Some False
   \<and> (snd (initialize_raising raises toolkit this) = Some True)
       = (snd (fst (initialize_raising raises toolkit this)) = None)
   \<and> snd (initialize_raising (\<lambda>done c. None) toolkit this) = Some True"
  by (simp add: initialize_raising_def Let_def perform_silent initialize_run)

text \<open>
  C2 as stated fails: there is no toolkit and no pass for which a shader or program step
  of \<^verbatim>\<open>initialize()\<close> reports failure and \<^verbatim>\<open>initialize()\<close> returns false.
\<close>

theorem initialize_failed_step_not_surfaced:
  "\<not> (\<exists>raises toolkit this.
          list_ex failed_step (fst (fst (initialize_raising raises toolkit this)))
          \<and> snd (initialize_raising raises toolkit this) = Some False)"
  by (simp add: initialize_raising_def Let_def)


lemma filter_andThen:
  "filter P (fst r) = [] \<Longrightarrow> filter P (fst r') = [] \<Longrightarrow> filter P (fst (andThen r r')) = []"
  by (cases r; cases r'; cases "snd r") auto

lemma filter_statements:
  "(\<And>r. r \<in> set rs \<Longrightarrow> filter P (fst r) = []) \<Longrightarrow> filter P (fst (statements rs)) = []"
  by (induction rs) (auto intro: filter_andThen)

lemma frame_releases_nothing:
  "filter releases_geometry_or_texture (fst (frame this)) = []"
  unfolding frame_def frame_dispatch_def
  by (rule filter_statements)
     (auto simp: assert_def call_def bind_texture_def uniform_viewProjectionInverse_def
        split: option.splits)

lemma initialize_releases_nothing:
  "filter releases_geometry_or_texture (fst (fst (initialize toolkit this))) = []"
  by (simp add: initialize_def call_def Let_def)

lemma invoke_releases_nothing:
  "filter releases_geometry_or_texture (fst (snd (invoke toolkit m this))) = []"
  by (cases m)
     (simp_all add: frame_releases_nothing initialize_releases_nothing uninitialize_def
        update_def call_def)

lemma calls_of_releases_nothing:
  "filter releases_geometry_or_texture (calls_of toolkit ms this) = []"
  by (induction ms arbitrary: this) (simp_all add: invoke_releases_nothing)

text \<open>
  C10. \<^verbatim>\<open>uninitialize()\<close> makes four calls, the \<^verbatim>\<open>uninitialize()\<close> of each program,
  and none on the triangle or the placeholder textures, which the first three calls of
  \<^verbatim>\<open>initialize()\<close> initialised. No sequence of invocations of the pass's methods ever
  uninitialises a geometry or a texture.
\<close>

theorem uninitialize_releases_only_programs:
  "uninitialize this =
     ([ProgramUninitialize (cubeMapProgram this),
       ProgramUninitialize (equiMapProgram this),
       ProgramUninitialize (sphereMapProgram this),
       ProgramUninitialize (polarMapProgram this)], None)
   \<and> take 3 (fst (fst (initialize toolkit this))) =
       [GeometryInitialize (ndcTriangle this),
        Texture2DInitialize (emptyTexture this) 1 1
          (fst (queryInternalTextureFormat toolkit)) RGB (snd (queryInternalTextureFormat toolkit)),
        TextureCubeInitialize (emptyCubemap this) 1
          (fst (queryInternalTextureFormat toolkit)) RGB (snd (queryInternalTextureFormat toolkit))]
   \<and> filter releases_geometry_or_texture (calls_of toolkit methods this) = []"
  by (simp add: uninitialize_def initialize_def call_def Let_def calls_of_releases_nothing)

section \<open>Properties of the eye-tracking renderer\<close>

text \<open>
  C3. What \<^verbatim>\<open>onFrame()\<close> does: it binds and clears the default framebuffer with a
  mask holding the colour and the depth bit, sets the viewport, enables culling and the
  depth test, binds the program, uploads the view-projection matrix, binds, draws and
  unbinds the cuboid, unbinds the program, and disables culling. The depth test is not
  disabled: started with every capability off, the call leaves culling off and the depth
  test on.
\<close>

theorem onFrame_leaves_depth_test_enabled:
  "onFrame this =
     ([FramebufferBind (r_defaultFBO this),
       FramebufferClear (r_defaultFBO this) (COLOR_BUFFER_BIT OR DEPTH_BUFFER_BIT) True False,
       Viewport 0 0 (fst (r_frameSize this)) (snd (r_frameSize this)),
       Enable CULL_FACE, CullFace BACK, Enable DEPTH_TEST,
       ProgramBind (r_program this),
       UniformMatrix4fv (r_uViewProjection this) False (viewProjection (r_camera this)),
       GeometryBind (r_cuboid this), GeometryDraw (r_cuboid this), GeometryUnbind (r_cuboid this),
       ProgramUnbind (r_program this),
       CullFace BACK, Disable CULL_FACE], None)
   \<and> (COLOR_BUFFER_BIT OR DEPTH_BUFFER_BIT) AND COLOR_BUFFER_BIT \<noteq> 0
   \<and> (COLOR_BUFFER_BIT OR DEPTH_BUFFER_BIT) AND DEPTH_BUFFER_BIT \<noteq> 0
   \<and> \<not> isEnabled_after (\<lambda>cap. False) (fst (onFrame this)) CULL_FACE
   \<and> isEnabled_after (\<lambda>cap. False) (fst (onFrame this)) DEPTH_TEST"
  by (simp add: onFrame_def call_def COLOR_BUFFER_BIT_def DEPTH_BUFFER_BIT_def)

text \<open>
  C8. In any state of the renderer, an invocation of the data callback or of the status
  callback ends without an exception, leaves every field of the renderer as it was and
  makes one call, a \<^verbatim>\<open>console.log\<close>; a frame drawn afterwards is the frame that would
  have been drawn before.
\<close>

theorem callbacks_only_log:
  "onDataUpdate_callback this =
     (this, [ConsoleLog (toString (eyeTrackingData (r_eyeTrackerDataStream this)))], None)
   \<and> onStatusUpdate_callback this =
     (this,
      [ConsoleLog
         (case statusMessage (r_eyeTrackerDataStream this) of
            NewServerMessage \<Rightarrow> serverMessage (r_eyeTrackerDataStream this)
          | BinaryMessageTooSmall \<Rightarrow> ''Received stream from server with not enough bytes.''
          | OtherStatusMessage n \<Rightarrow> ''Eye-Tracking data stream in invalid state.'')], None)
   \<and> onFrame (fst (onDataUpdate_callback this)) = onFrame this
   \<and> onFrame (fst (onStatusUpdate_callback this)) = onFrame this"
  by (simp add: onDataUpdate_callback_def onStatusUpdate_callback_def call_def
        split: EyeTrackingStatusMessage.splits)

end
